theory Spec2Isabelle
  imports Main "HOL-Library.Sublist"
begin

section \<open>Data model\<close>

text \<open>
  The book form of BookManager (\<open>initialFormState\<close>) carries the six editable fields.
  A stored book is the form's fields plus \<open>id\<close> and \<open>totalCopies\<close>, so that the
  spread \<open>{ ...book, ...formData }\<close> is a copy of the six form fields onto the book.
  Numbers of the source are modelled as unbounded integers.
\<close>

record bookForm =
  title :: string
  author :: string
  genre :: string
  isbn :: string
  year :: int
  count :: int

record book = bookForm +
  book_id :: int
  totalCopies :: int

text \<open>
  A user identifier is a number when the user was created by \<open>handleAddUser\<close>
  (\<open>id: Date.now()\<close>) and may be a string in stored data. The strict equality
  \<open>u.id === selectedUser\<close> compares it with the string value of a \<open>select\<close> element.
\<close>

datatype jsid = IdNum int | IdStr string

record userForm =
  name :: string
  email :: string
  phone :: string
  memberSince :: int

record user = userForm +
  user_id :: jsid
  borrowedBooks :: "int list"

text \<open>
  Calendar dates are stored by the source as the strings \<open>YYYY-MM-DD\<close> cut from
  \<open>toISOString()\<close>; they are modelled by the day number since 1970-01-01 (UTC) that
  the string denotes. \<open>bookId\<close> is the result of \<open>parseInt(selectedBook)\<close>:
  \<open>None\<close> stands for \<open>NaN\<close>. \<open>userName\<close> is \<open>users.find(...)?.name\<close>:
  \<open>None\<close> stands for \<open>undefined\<close>.
\<close>

record borrow =
  borrow_id :: int
  bookId :: "int option"
  userId :: string
  userName :: "string option"
  borrowDate :: int
  dueDate :: int
  returnDate :: "int option"
  status :: string

text \<open>
  The three persisted collections, and the \<open>error\<close> message of the mounted component.
  App mounts one section at a time and each section reloads the collections from local
  storage, so one copy of each collection is the state.
\<close>

record state =
  books :: "book list"
  users :: "user list"
  borrows :: "borrow list"
  error :: "string option"

datatype js_error = TypeError | RangeError

section \<open>Dates (ECMAScript time values)\<close>

text \<open>
  A \<open>Date\<close> holds a time value: milliseconds since the epoch, or \<open>NaN\<close> (\<open>None\<close>).
  \<open>tza t isUTC\<close> is the offset of the local time zone in milliseconds (the
  \<open>LocalTZA\<close> of the language specification): at the UTC instant \<open>t\<close> when
  \<open>isUTC\<close>, at the local time value \<open>t\<close> otherwise.
\<close>

type_synonym tz = "int \<Rightarrow> bool \<Rightarrow> int"

definition msPerDay :: int where
  "msPerDay = 86400000"

definition Day :: "int \<Rightarrow> int" where
  "Day t = t div msPerDay"

definition TimeWithinDay :: "int \<Rightarrow> int" where
  "TimeWithinDay t = t mod msPerDay"

definition LocalTime :: "tz \<Rightarrow> int \<Rightarrow> int" where
  "LocalTime tza t = t + tza t True"

definition UTC :: "tz \<Rightarrow> int \<Rightarrow> int" where
  "UTC tza t = t - tza t False"

definition MakeDate :: "int \<Rightarrow> int \<Rightarrow> int" where
  "MakeDate day time = day * msPerDay + time"

definition TimeClip :: "int \<Rightarrow> int option" where
  "TimeClip t = (if \<bar>t\<bar> > 8640000000000000 then None else Some t)"

text \<open>
  \<open>d.setDate(today.getDate() + n)\<close> on a copy \<open>d\<close> of \<open>today\<close>. With
  \<open>lt = LocalTime(t)\<close>, \<open>getDate()\<close> is \<open>DateFromTime(lt)\<close> and \<open>setDate(dt)\<close> stores
  \<open>TimeClip(UTC(MakeDate(MakeDay(YearFromTime(lt), MonthFromTime(lt), dt), TimeWithinDay(lt))))\<close>.
  \<open>MakeDay(y, m, dt)\<close> is the day number of the first of month \<open>m\<close> of year \<open>y\<close> plus
  \<open>dt - 1\<close>, and \<open>DateFromTime(lt)\<close> is \<open>Day(lt)\<close> minus that day number plus 1, so for
  \<open>dt = DateFromTime(lt) + n\<close> the day is \<open>Day(lt) + n\<close>. A \<open>NaN\<close> argument gives an
  invalid date.
\<close>

definition setDate_getDate_plus :: "tz \<Rightarrow> int \<Rightarrow> int option \<Rightarrow> int option" where
  "setDate_getDate_plus tza t n =
     (case n of
        None \<Rightarrow> None
      | Some k \<Rightarrow>
          (let lt = LocalTime tza t;
               newDate = MakeDate (Day lt + k) (TimeWithinDay lt)
           in TimeClip (UTC tza newDate)))"

text \<open>
  \<open>d.toISOString().split('T')[0]\<close>: the UTC calendar date of the time value;
  \<open>toISOString\<close> throws a RangeError on an invalid date.
\<close>

definition toISOString_date :: "int option \<Rightarrow> js_error + int" where
  "toISOString_date d = (case d of None \<Rightarrow> Inl RangeError | Some t \<Rightarrow> Inr (Day t))"

text \<open>\<open>new Date(s)\<close> for a date-only string \<open>s\<close>: midnight UTC of that day.\<close>

definition parseDate :: "int \<Rightarrow> int" where
  "parseDate d = d * msPerDay"

text \<open>
  What a handler reads from its environment: the time value of \<open>new Date()\<close>, the
  value of the later \<open>Date.now()\<close>, and the time zone of the browser.
\<close>

record env =
  now :: int
  date_now :: int
  localTZA :: tz

section \<open>BorrowManager\<close>

definition borrowFailed :: string where
  "borrowFailed = ''Failed to process borrow: Invalid time value''"

definition returnFailed :: string where
  "returnFailed = ''Failed to process return: Borrow record not found''"

text \<open>
  \<open>handleBorrow\<close>, with the form state it reads (\<open>selectedUser\<close>, \<open>selectedBook\<close> after
  \<open>parseInt\<close>, \<open>borrowDuration\<close>, where \<open>None\<close> is \<open>NaN\<close>) as arguments. The object
  literal is evaluated before any state is set; the only expression in it that can throw
  is \<open>dueDate.toISOString()\<close>, and the \<open>catch\<close> then sets \<open>error\<close>.
\<close>

definition newBorrow :: "env \<Rightarrow> string \<Rightarrow> int option \<Rightarrow> int option \<Rightarrow> user list \<Rightarrow> js_error + borrow" where
  "newBorrow e selectedUser selectedBook borrowDuration us =
     (let today = now e;
          due = setDate_getDate_plus (localTZA e) today borrowDuration
      in case toISOString_date (Some today) of
           Inl x \<Rightarrow> Inl x
         | Inr bd \<Rightarrow>
             (case toISOString_date due of
                Inl x \<Rightarrow> Inl x
              | Inr dd \<Rightarrow>
                  Inr \<lparr> borrow_id = date_now e,
                        bookId = selectedBook,
                        userId = selectedUser,
                        userName = map_option name (find (\<lambda>u. user_id u = IdStr selectedUser) us),
                        borrowDate = bd,
                        dueDate = dd,
                        returnDate = None,
                        status = ''active'' \<rparr>))"

definition handleBorrow :: "env \<Rightarrow> string \<Rightarrow> int option \<Rightarrow> int option \<Rightarrow> state \<Rightarrow> state" where
  "handleBorrow e selectedUser selectedBook borrowDuration s =
     (case newBorrow e selectedUser selectedBook borrowDuration (users s) of
        Inl x \<Rightarrow> s\<lparr> error := Some borrowFailed \<rparr>
      | Inr nb \<Rightarrow>
          s\<lparr> borrows := nb # borrows s,
             books := map (\<lambda>b. if Some (book_id b) = selectedBook
                                then b\<lparr> count := count b - 1 \<rparr> else b) (books s) \<rparr>)"

text \<open>\<open>handleReturn\<close>; \<open>today\<close> is the time value of its \<open>new Date()\<close>.\<close>

definition handleReturn :: "int \<Rightarrow> int \<Rightarrow> state \<Rightarrow> state" where
  "handleReturn today borrowId s =
     (case find (\<lambda>b. borrow_id b = borrowId) (borrows s) of
        None \<Rightarrow> s\<lparr> error := Some returnFailed \<rparr>
      | Some br \<Rightarrow>
          s\<lparr> borrows := map (\<lambda>b. if borrow_id b = borrowId
                                  then b\<lparr> returnDate := Some (Day today), status := ''returned'' \<rparr>
                                  else b) (borrows s),
             books := map (\<lambda>b. if Some (book_id b) = bookId br
                                then b\<lparr> count := count b + 1 \<rparr> else b) (books s) \<rparr>)"

text \<open>
  Strings are ASCII text (the characters of the model are bytes): \<open>toLowerCase\<close>
  lowers the letters A to Z and leaves every other character as it is; the cased
  letters beyond ASCII, which the source's \<open>toLowerCase\<close> lowers too, are outside the
  model. \<open>s.includes(q)\<close> is true when \<open>q\<close> occurs in \<open>s\<close> as a contiguous substring.
\<close>

definition toLowerCase_char :: "char \<Rightarrow> char" where
  "toLowerCase_char c =
     (let n = (of_char c :: nat) in if 65 \<le> n \<and> n \<le> 90 then char_of (n + 32) else c)"

definition toLowerCase :: "string \<Rightarrow> string" where
  "toLowerCase s = map toLowerCase_char s"

fun includes_str :: "string \<Rightarrow> string \<Rightarrow> bool" where
  "includes_str [] q = (q = [])"
| "includes_str (c # cs) q = (prefix q (c # cs) \<or> includes_str cs q)"

text \<open>
  The callback of \<open>borrows.filter\<close> that computes \<open>filteredBorrows\<close>.
  \<open>borrow.userName.toLowerCase()\<close> is evaluated first and throws a TypeError when
  \<open>userName\<close> is undefined; the title lookup is guarded by \<open>?.\<close> and is falsy when no
  book has the identifier. \<open>searchQuery\<close> and \<open>filter\<close> are the component's state,
  \<open>asOf\<close> the time value of \<open>new Date()\<close>.
\<close>

definition matchesSearch :: "book list \<Rightarrow> string \<Rightarrow> borrow \<Rightarrow> js_error + bool" where
  "matchesSearch bs searchQuery b =
     (case userName b of
        None \<Rightarrow> Inl TypeError
      | Some n \<Rightarrow>
          Inr (includes_str (toLowerCase n) (toLowerCase searchQuery) \<or>
               (case find (\<lambda>k. Some (book_id k) = bookId b) bs of
                  None \<Rightarrow> False
                | Some k \<Rightarrow> includes_str (toLowerCase (title k)) (toLowerCase searchQuery))))"

definition keepBorrow :: "book list \<Rightarrow> string \<Rightarrow> string \<Rightarrow> int \<Rightarrow> borrow \<Rightarrow> js_error + bool" where
  "keepBorrow bs searchQuery fltr asOf b =
     (case matchesSearch bs searchQuery b of
        Inl x \<Rightarrow> Inl x
      | Inr m \<Rightarrow>
          Inr (if fltr = ''all'' then m
               else if fltr = ''active'' then m \<and> status b = ''active''
               else if fltr = ''overdue'' then m \<and> status b = ''active'' \<and> parseDate (dueDate b) < asOf
               else if fltr = ''returned'' then m \<and> status b = ''returned''
               else m))"

text \<open>\<open>Array.prototype.filter\<close> with a callback that may throw: the first throw ends it.\<close>

fun filter_throwing :: "('a \<Rightarrow> js_error + bool) \<Rightarrow> 'a list \<Rightarrow> js_error + 'a list" where
  "filter_throwing p [] = Inr []"
| "filter_throwing p (x # xs) =
     (case p x of
        Inl e \<Rightarrow> Inl e
      | Inr keep \<Rightarrow>
          (case filter_throwing p xs of
             Inl e \<Rightarrow> Inl e
           | Inr ys \<Rightarrow> Inr (if keep then x # ys else ys)))"

definition filteredBorrows :: "book list \<Rightarrow> borrow list \<Rightarrow> string \<Rightarrow> string \<Rightarrow> int \<Rightarrow> js_error + borrow list" where
  "filteredBorrows bs rs searchQuery fltr asOf = filter_throwing (keepBorrow bs searchQuery fltr asOf) rs"

text \<open>
  \<open>Array.prototype.slice(start, end)\<close>: a negative index counts from the end, and both
  are clamped to the list.
\<close>

definition slice :: "'a list \<Rightarrow> int \<Rightarrow> int \<Rightarrow> 'a list" where
  "slice xs start fin =
     (let len = int (length xs);
          k = (if start < 0 then max (len + start) 0 else min start len);
          final = (if fin < 0 then max (len + fin) 0 else min fin len)
      in take (nat (final - k)) (drop (nat k) xs))"

definition ROWS_PER_PAGE :: int where
  "ROWS_PER_PAGE = 10"

definition currentBorrows :: "borrow list \<Rightarrow> int \<Rightarrow> borrow list" where
  "currentBorrows filtered currentPage =
     (let startIndex = (currentPage - 1) * ROWS_PER_PAGE;
          endIndex = startIndex + ROWS_PER_PAGE
      in slice filtered startIndex endIndex)"

text \<open>
  The identifiers for which the table renders a "Return Book" button, whose click calls
  \<open>handleReturn(borrow.id)\<close>: the rows of the current page whose status is \<open>active\<close>.
  When the filter throws nothing is rendered.
\<close>

definition returnButtons :: "state \<Rightarrow> string \<Rightarrow> string \<Rightarrow> int \<Rightarrow> int \<Rightarrow> int list" where
  "returnButtons s searchQuery fltr currentPage asOf =
     (case filteredBorrows (books s) (borrows s) searchQuery fltr asOf of
        Inl x \<Rightarrow> []
      | Inr filtered \<Rightarrow>
          map borrow_id (filter (\<lambda>b. status b = ''active'') (currentBorrows filtered currentPage)))"

text \<open>
  The borrow form: the options of the book selector
  (\<open>books.filter(book => book.count > 0)\<close>) and the \<open>disabled\<close> attribute of the
  "New Borrow" button.
\<close>

definition bookOptions :: "book list \<Rightarrow> book list" where
  "bookOptions bs = filter (\<lambda>b. count b > 0) bs"

definition newBorrowDisabled :: "book list \<Rightarrow> bool" where
  "newBorrowDisabled bs = (\<not> list_ex (\<lambda>b. count b > 0) bs)"

section \<open>BookManager\<close>

text \<open>
  \<open>handleAddBook\<close>: \<open>{ id: Date.now(), ...formData, totalCopies: formData.count }\<close>
  appended to the books.
\<close>

definition handleAddBook :: "int \<Rightarrow> bookForm \<Rightarrow> state \<Rightarrow> state" where
  "handleAddBook dnow formData s =
     s\<lparr> books := books s @
           [\<lparr> title = title formData, author = author formData, genre = genre formData,
              isbn = isbn formData, year = year formData, count = count formData,
              book_id = dnow, totalCopies = count formData \<rparr>] \<rparr>"

text \<open>
  \<open>handleUpdateBook\<close>:
  \<open>{ ...book, ...formData, totalCopies: Math.max(formData.count, book.totalCopies) }\<close>
  for every book with the identifier of \<open>editingBook\<close>. The form is submitted to this
  handler only while \<open>editingBook\<close> is set.
\<close>

definition handleUpdateBook :: "book \<Rightarrow> bookForm \<Rightarrow> state \<Rightarrow> state" where
  "handleUpdateBook editingBook formData s =
     s\<lparr> books := map (\<lambda>b. if book_id b = book_id editingBook
                            then b\<lparr> title := title formData, author := author formData,
                                   genre := genre formData, isbn := isbn formData,
                                   year := year formData, count := count formData,
                                   totalCopies := max (count formData) (totalCopies b) \<rparr>
                            else b) (books s) \<rparr>"

text \<open>\<open>handleEditBook\<close> loads the form from the book of the row.\<close>

definition handleEditBook :: "book \<Rightarrow> bookForm" where
  "handleEditBook b =
     \<lparr> title = title b, author = author b, genre = genre b, isbn = isbn b,
       year = year b, count = count b \<rparr>"

text \<open>\<open>handleDeleteBook\<close>; \<open>confirmed\<close> is the answer of \<open>window.confirm\<close>.\<close>

definition handleDeleteBook :: "bool \<Rightarrow> int \<Rightarrow> state \<Rightarrow> state" where
  "handleDeleteBook confirmed bookId' s =
     (if confirmed then s\<lparr> books := filter (\<lambda>b. book_id b \<noteq> bookId') (books s) \<rparr> else s)"

text \<open>\<open>handleAddUser\<close>: the new user's identifier is the number \<open>Date.now()\<close>.\<close>

definition handleAddUser :: "int \<Rightarrow> userForm \<Rightarrow> state \<Rightarrow> state" where
  "handleAddUser dnow userFormData s =
     s\<lparr> users := users s @
           [\<lparr> name = name userFormData, email = email userFormData, phone = phone userFormData,
              memberSince = memberSince userFormData, user_id = IdNum dnow, borrowedBooks = [] \<rparr>] \<rparr>"

section \<open>The ledger\<close>

text \<open>The number of \<open>active\<close> borrow records that reference the book identifier \<open>k\<close>.\<close>

definition activeBorrows :: "int \<Rightarrow> borrow list \<Rightarrow> nat" where
  "activeBorrows k rs = length (filter (\<lambda>r. status r = ''active'' \<and> bookId r = Some k) rs)"

definition countInRange :: "state \<Rightarrow> bool" where
  "countInRange s = list_all (\<lambda>b. 0 \<le> count b \<and> count b \<le> totalCopies b) (books s)"

definition ledgerConsistent :: "state \<Rightarrow> bool" where
  "ledgerConsistent s =
     list_all (\<lambda>b. int (activeBorrows (book_id b) (borrows s)) = totalCopies b - count b) (books s)"

text \<open>
  Calls of the three handlers of the borrow workflow: \<open>handleBorrow\<close> with the form
  state and environment it reads, \<open>handleReturn\<close> with its date and identifier, and
  \<open>handleDeleteBook\<close> with the answer of the confirmation dialog.
\<close>

datatype event =
    Borrow env string "int option" "int option"
  | Return int int
  | DeleteBook bool int

fun apply_event :: "event \<Rightarrow> state \<Rightarrow> state" where
  "apply_event (Borrow e selectedUser selectedBook borrowDuration) s =
     handleBorrow e selectedUser selectedBook borrowDuration s"
| "apply_event (Return today borrowId) s = handleReturn today borrowId s"
| "apply_event (DeleteBook confirmed k) s = handleDeleteBook confirmed k s"

text \<open>
  The conditions on a call under which the ledger equation is kept. The handlers check
  neither: \<open>handleBorrow\<close> takes \<open>Date.now()\<close> as the identifier as it comes, and
  \<open>handleReturn\<close> never reads \<open>status\<close>. A borrow is admitted when its \<open>Date.now()\<close>
  is not yet a borrow identifier (whatever the selected book's \<open>count\<close>), a return when
  a record with the identifier has status \<open>active\<close> (the returns that the "Return Book"
  buttons offer), a deletion always. \<open>run\<close> applies a list of calls and is \<open>None\<close> as
  soon as one is not admitted.
\<close>

fun enabled :: "state \<Rightarrow> event \<Rightarrow> bool" where
  "enabled s (Borrow e selectedUser selectedBook borrowDuration) =
     (date_now e \<notin> set (map borrow_id (borrows s)))"
| "enabled s (Return today borrowId) =
     list_ex (\<lambda>r. borrow_id r = borrowId \<and> status r = ''active'') (borrows s)"
| "enabled s (DeleteBook confirmed k) = True"

fun run :: "state \<Rightarrow> event list \<Rightarrow> state option" where
  "run s [] = Some s"
| "run s (ev # evs) = (if enabled s ev then run (apply_event ev s) evs else None)"

section \<open>Concrete inputs\<close>

text \<open>
  A browser in the Europe/Berlin zone: UTC+1 until 2024-03-31T01:00:00Z, UTC+2 from then
  on (as a local time value the change is at 2024-03-31T02:00). The first clock reading
  is 2024-03-20T00:30:00Z, that is 01:30 local time on day 19802.
\<close>

definition berlin :: tz where
  "berlin t isUTC =
     (if isUTC then (if t < 1711846800000 then 3600000 else 7200000)
      else (if t < 1711850400000 then 3600000 else 7200000))"

definition env_berlin :: env where
  "env_berlin = \<lparr> now = 1710894600000, date_now = 1710894600001, localTZA = berlin \<rparr>"

definition env_later :: env where
  "env_later = \<lparr> now = 1710894700000, date_now = 1710894700001, localTZA = berlin \<rparr>"

definition dune :: book where
  "dune = \<lparr> title = ''Dune'', author = ''Frank Herbert'', genre = ''Science Fiction'',
            isbn = ''9780441013593'', year = 1965, count = 1, book_id = 1, totalCopies = 1 \<rparr>"

definition ada :: user where
  "ada = \<lparr> name = ''Ada'', email = ''ada@example.org'', phone = ''555'', memberSince = 19000,
           user_id = IdStr ''u1'', borrowedBooks = [] \<rparr>"

text \<open>One book with its single copy on the shelf, and the same book with that copy lent.\<close>

definition shelf :: state where
  "shelf = \<lparr> books = [dune], users = [ada], borrows = [], error = None \<rparr>"

definition loan :: borrow where
  "loan = \<lparr> borrow_id = 100, bookId = Some 1, userId = ''u1'', userName = Some ''Ada'',
            borrowDate = 19800, dueDate = 19814, returnDate = None, status = ''active'' \<rparr>"

definition lent :: state where
  "lent = \<lparr> books = [dune\<lparr> count := 0 \<rparr>], users = [ada], borrows = [loan], error = None \<rparr>"

text \<open>Two books, one copy of the second lent, and a run of five events from there.\<close>

definition two_books :: state where
  "two_books =
     \<lparr> books = [dune, dune\<lparr> title := ''Emma'', book_id := 2, count := 2, totalCopies := 3 \<rparr>],
       users = [ada], borrows = [loan\<lparr> bookId := Some 2 \<rparr>], error = None \<rparr>"

definition ledger_trace :: "event list" where
  "ledger_trace =
     [Borrow env_berlin ''u1'' (Some 1) (Some 14), Return 1710900000000 100,
      Borrow env_later ''u1'' (Some 2) (Some 7), DeleteBook True 1,
      Return 1710900000000 1710894600001]"

definition after_ledger_trace :: state where
  "after_ledger_trace = foldl (\<lambda>s ev. apply_event ev s) two_books ledger_trace"

text \<open>The record that the first borrow from \<open>shelf\<close> creates.\<close>

definition first_loan :: borrow where
  "first_loan =
     \<lparr> borrow_id = 1710894600001, bookId = Some 1, userId = ''u1'', userName = Some ''Ada'',
       borrowDate = 19802, dueDate = 19815, returnDate = None, status = ''active'' \<rparr>"

text \<open>
  Editing the lent book: \<open>handleEditBook\<close> loads its count 0 into the form, whose
  "Number of Copies" input has \<open>min="1"\<close>, so the form is submitted with a count of at
  least 1. Then the copy is returned.
\<close>

definition edit_form :: bookForm where
  "edit_form = (handleEditBook (dune\<lparr> count := 0 \<rparr>))\<lparr> count := 1 \<rparr>"

definition edited :: state where
  "edited = handleUpdateBook (dune\<lparr> count := 0 \<rparr>) edit_form lent"

definition over_capacity :: state where
  "over_capacity = handleReturn 1710900000000 100 edited"

definition three_form :: bookForm where
  "three_form = (handleEditBook (dune\<lparr> count := 0 \<rparr>))\<lparr> count := 3 \<rparr>"

text \<open>
  A book with both of its two copies lent, and its edit form submitted with a count of
  1, below the two copies that are out.
\<close>

definition second_loan :: borrow where
  "second_loan = loan\<lparr> borrow_id := 101 \<rparr>"

definition both_lent :: state where
  "both_lent =
     \<lparr> books = [dune\<lparr> count := 0, totalCopies := 2 \<rparr>], users = [ada],
       borrows = [loan, second_loan], error = None \<rparr>"

definition fewer_form :: bookForm where
  "fewer_form = (handleEditBook (dune\<lparr> count := 0, totalCopies := 2 \<rparr>))\<lparr> count := 1 \<rparr>"

text \<open>The lent copy returned once, and the same identifier returned again.\<close>

definition returned_once :: state where
  "returned_once = handleReturn 1710900000000 100 lent"

definition returned_twice :: state where
  "returned_twice = handleReturn 1710900000000 100 returned_once"

text \<open>
  A user added by \<open>handleAddUser\<close>, and a borrow for that user: the user selector's
  value is the decimal string of the numeric identifier.
\<close>

definition bob_form :: userForm where
  "bob_form = \<lparr> name = ''Bob'', email = ''bob@example.org'', phone = ''556'', memberSince = 19802 \<rparr>"

definition nameless :: state where
  "nameless =
     handleBorrow env_berlin ''1700000000000'' (Some 1) (Some 14)
       (handleAddUser 1700000000000 bob_form shelf)"

section \<open>Auxiliary facts\<close>

lemma find_borrow_unique:
  "distinct (map borrow_id rs) \<Longrightarrow> find (\<lambda>b. borrow_id b = i) rs = Some r \<Longrightarrow>
   b \<in> set rs \<Longrightarrow> borrow_id b = i \<Longrightarrow> b = r"
proof (induction rs)
  case Nil
  then show ?case by simp
next
  case (Cons x xs)
  show ?case
  proof (cases "borrow_id x = i")
    case True
    with Cons.prems have rx: "r = x" by simp
    from Cons.prems True have "i \<notin> borrow_id ` set xs" by simp
    then have "\<forall>y\<in>set xs. borrow_id y \<noteq> i" by (metis imageI)
    with Cons.prems rx show ?thesis by auto
  next
    case False
    with Cons show ?thesis by auto
  qed
qed

text \<open>
  Marking the record found for \<open>i\<close> as returned removes exactly that record from the
  active records, when identifiers are unique.
\<close>

lemma activeBorrows_return:
  assumes "distinct (map borrow_id rs)"
    and "find (\<lambda>b. borrow_id b = i) rs = Some r"
    and "status r = ''active''"
  shows "activeBorrows k rs =
         activeBorrows k
           (map (\<lambda>b. if borrow_id b = i
                      then b\<lparr> returnDate := Some d, status := ''returned'' \<rparr> else b) rs)
         + (if bookId r = Some k then 1 else 0)"
  using assms
proof (induction rs)
  case Nil
  then show ?case by simp
next
  case (Cons x xs)
  show ?case
  proof (cases "borrow_id x = i")
    case True
    with Cons.prems have rx: "r = x" by simp
    from Cons.prems True have "i \<notin> borrow_id ` set xs" by simp
    then have "\<forall>y\<in>set xs. borrow_id y \<noteq> i" by (metis imageI)
    then have "map (\<lambda>b. if borrow_id b = i
                         then b\<lparr> returnDate := Some d, status := ''returned'' \<rparr> else b) xs = xs"
      by (induction xs) auto
    with True rx Cons.prems show ?thesis by (simp add: activeBorrows_def)
  next
    case False
    with Cons.prems have "find (\<lambda>b. borrow_id b = i) xs = Some r" "distinct (map borrow_id xs)"
      by auto
    from Cons.IH[OF this(2) this(1) Cons.prems(3)] False show ?thesis
      by (simp add: activeBorrows_def)
  qed
qed

lemma map_borrow_id_return:
  "map borrow_id
     (map (\<lambda>b. if borrow_id b = i
                then b\<lparr> returnDate := Some d, status := ''returned'' \<rparr> else b) rs) =
   map borrow_id rs"
  by (induction rs) auto

lemma handleReturn_ledger:
  assumes "ledgerConsistent s"
    and "distinct (map borrow_id (borrows s))"
    and "enabled s (Return today i)"
  shows "ledgerConsistent (handleReturn today i s) \<and>
         distinct (map borrow_id (borrows (handleReturn today i s)))"
proof -
  from assms(3) obtain a where a: "a \<in> set (borrows s)" "borrow_id a = i" "status a = ''active''"
    by (auto simp: list_ex_iff)
  then obtain r where r: "find (\<lambda>b. borrow_id b = i) (borrows s) = Some r"
    by (cases "find (\<lambda>b. borrow_id b = i) (borrows s)") (auto simp: find_None_iff)
  from find_borrow_unique[OF assms(2) r a(1) a(2)] a have act: "status r = ''active''" by simp
  note ab = activeBorrows_return[OF assms(2) r act]
  have bs: "borrows (handleReturn today i s) =
      map (\<lambda>b. if borrow_id b = i
                then b\<lparr> returnDate := Some (Day today), status := ''returned'' \<rparr> else b) (borrows s)"
    using r by (simp add: handleReturn_def)
  have d: "distinct (map borrow_id (borrows (handleReturn today i s)))"
    unfolding bs map_borrow_id_return by (rule assms(2))
  have bk: "books (handleReturn today i s) =
      map (\<lambda>b. if Some (book_id b) = bookId r then b\<lparr> count := count b + 1 \<rparr> else b) (books s)"
    using r by (simp add: handleReturn_def)
  have "ledgerConsistent (handleReturn today i s)"
    unfolding ledgerConsistent_def bs bk
    using assms(1) by (auto simp: ledgerConsistent_def list_all_iff ab[of _ "Day today"])
  with d show ?thesis by simp
qed

lemma handleBorrow_ledger:
  assumes "ledgerConsistent s"
    and "distinct (map borrow_id (borrows s))"
    and "enabled s (Borrow e su sb d)"
  shows "ledgerConsistent (handleBorrow e su sb d s) \<and>
         distinct (map borrow_id (borrows (handleBorrow e su sb d s)))"
proof (cases "newBorrow e su sb d (users s)")
  case (Inl x)
  with assms show ?thesis by (simp add: handleBorrow_def ledgerConsistent_def)
next
  case (Inr nb)
  then have nb: "borrow_id nb = date_now e" "bookId nb = sb" "status nb = ''active''"
    by (auto simp: newBorrow_def Let_def split: sum.splits)
  have bs: "borrows (handleBorrow e su sb d s) = nb # borrows s"
    and bk: "books (handleBorrow e su sb d s) =
      map (\<lambda>b. if Some (book_id b) = sb then b\<lparr> count := count b - 1 \<rparr> else b) (books s)"
    using Inr by (simp_all add: handleBorrow_def)
  have d: "distinct (map borrow_id (borrows (handleBorrow e su sb d s)))"
    using assms(2,3) nb by (simp add: bs)
  have ac: "\<And>k. activeBorrows k (nb # borrows s) =
                 activeBorrows k (borrows s) + (if sb = Some k then 1 else 0)"
    using nb by (simp add: activeBorrows_def)
  have "ledgerConsistent (handleBorrow e su sb d s)"
    unfolding ledgerConsistent_def bs bk list_all_iff
  proof
    fix b'
    assume "b' \<in> set (map (\<lambda>b. if Some (book_id b) = sb
                                  then b\<lparr> count := count b - 1 \<rparr> else b) (books s))"
    then obtain b where b: "b \<in> set (books s)"
      and b': "b' = (if Some (book_id b) = sb then b\<lparr> count := count b - 1 \<rparr> else b)"
      by auto
    from assms(1) b have inv: "int (activeBorrows (book_id b) (borrows s)) = totalCopies b - count b"
      by (simp add: ledgerConsistent_def list_all_iff)
    show "int (activeBorrows (book_id b') (nb # borrows s)) = totalCopies b' - count b'"
    proof (cases "Some (book_id b) = sb")
      case True
      then have "sb = Some (book_id b)" by simp
      with b' inv show ?thesis by (simp add: ac)
    next
      case False
      then have "sb \<noteq> Some (book_id b)" by auto
      with b' inv False show ?thesis by (simp add: ac)
    qed
  qed
  with d show ?thesis by simp
qed

lemma handleDeleteBook_ledger:
  assumes "ledgerConsistent s" and "distinct (map borrow_id (borrows s))"
  shows "ledgerConsistent (handleDeleteBook c k s) \<and>
         distinct (map borrow_id (borrows (handleDeleteBook c k s)))"
  using assms
  by (auto simp: handleDeleteBook_def ledgerConsistent_def list_all_iff)

lemma run_ledger:
  "ledgerConsistent s \<Longrightarrow> distinct (map borrow_id (borrows s)) \<Longrightarrow> run s evs = Some s' \<Longrightarrow>
   ledgerConsistent s' \<and> distinct (map borrow_id (borrows s'))"
proof (induction evs arbitrary: s)
  case Nil
  then show ?case by simp
next
  case (Cons ev evs)
  from Cons.prems(3) have en: "enabled s ev" and rest: "run (apply_event ev s) evs = Some s'"
    by (auto split: if_splits)
  have "ledgerConsistent (apply_event ev s) \<and>
        distinct (map borrow_id (borrows (apply_event ev s)))"
  proof (cases ev)
    case (Borrow e su sb d)
    with handleBorrow_ledger[OF Cons.prems(1,2)] en show ?thesis by simp
  next
    case (Return t i)
    with handleReturn_ledger[OF Cons.prems(1,2)] en show ?thesis by simp
  next
    case (DeleteBook c k)
    with handleDeleteBook_ledger[OF Cons.prems(1,2)] show ?thesis by simp
  qed
  with Cons.IH rest show ?case by blast
qed

text \<open>What the table renders is part of the stored borrows.\<close>

lemma filter_throwing_subset: "filter_throwing p xs = Inr ys \<Longrightarrow> set ys \<subseteq> set xs"
  by (induction xs arbitrary: ys) (auto split: sum.splits if_splits)

lemma set_slice_subset: "set (slice xs a b) \<subseteq> set xs"
  by (auto simp: slice_def Let_def dest: in_set_takeD in_set_dropD)

lemma returnButtons_active:
  assumes "i \<in> set (returnButtons s q f p t)"
  shows "\<exists>r\<in>set (borrows s). borrow_id r = i \<and> status r = ''active''"
proof (cases "filteredBorrows (books s) (borrows s) q f t")
  case (Inl x)
  with assms show ?thesis by (simp add: returnButtons_def)
next
  case (Inr filtered)
  with assms obtain r where r: "r \<in> set (currentBorrows filtered p)"
    "status r = ''active''" "borrow_id r = i"
    by (auto simp: returnButtons_def)
  from r(1) have "r \<in> set filtered"
    unfolding currentBorrows_def Let_def by (rule subsetD[OF set_slice_subset])
  moreover from Inr have "set filtered \<subseteq> set (borrows s)"
    unfolding filteredBorrows_def by (rule filter_throwing_subset)
  ultimately have "r \<in> set (borrows s)" by (rule rev_subsetD)
  with r show ?thesis by blast
qed

text \<open>
  A click on a rendered "Return Book" button is a return that \<open>enabled\<close> admits, so the
  runs of \<open>run\<close> include every return the table offers.
\<close>

lemma returnButtons_enabled:
  "i \<in> set (returnButtons s q f p t) \<Longrightarrow> enabled s (Return today i)"
  using returnButtons_active[of i s q f p t] by (auto simp: list_ex_iff)

text \<open>Substrings, and the filter on lists whose records all carry a user name.\<close>

lemma includes_str_sublist: "includes_str s q \<longleftrightarrow> sublist q s"
  by (induction s) (simp_all add: sublist_Cons_right)

lemma filter_throwing_total:
  "(\<forall>x\<in>set xs. p x = Inr (q x)) \<Longrightarrow> filter_throwing p xs = Inr (filter q xs)"
  by (induction xs) simp_all

lemma filteredBorrows_overdue_named:
  assumes "\<forall>r\<in>set rs. userName r \<noteq> None"
  shows "filteredBorrows bs rs searchQuery ''overdue'' asOf =
         Inr (filter (\<lambda>r. (sublist (toLowerCase searchQuery) (toLowerCase (the (userName r))) \<or>
                            (\<exists>k. find (\<lambda>k. Some (book_id k) = bookId r) bs = Some k \<and>
                                 sublist (toLowerCase searchQuery) (toLowerCase (title k)))) \<and>
                           status r = ''active'' \<and> parseDate (dueDate r) < asOf) rs)"
  unfolding filteredBorrows_def
proof (rule filter_throwing_total, rule ballI)
  fix r
  assume "r \<in> set rs"
  with assms obtain n where n: "userName r = Some n" by auto
  show "keepBorrow bs searchQuery ''overdue'' asOf r =
        Inr ((sublist (toLowerCase searchQuery) (toLowerCase (the (userName r))) \<or>
              (\<exists>k. find (\<lambda>k. Some (book_id k) = bookId r) bs = Some k \<and>
                   sublist (toLowerCase searchQuery) (toLowerCase (title k)))) \<and>
             status r = ''active'' \<and> parseDate (dueDate r) < asOf)"
    by (cases "find (\<lambda>k. Some (book_id k) = bookId r) bs")
      (simp_all add: keepBorrow_def matchesSearch_def n includes_str_sublist)
qed

text \<open>Due dates in a time zone whose offset never changes.\<close>

lemma Day_add_days: "Day (t + k * msPerDay) = Day t + k"
  by (simp add: Day_def msPerDay_def)

lemma setDate_fixed_offset:
  "setDate_getDate_plus (\<lambda>t u. c) t (Some k) = TimeClip (t + k * msPerDay)"
proof -
  have "(t + c) div msPerDay * msPerDay + (t + c) mod msPerDay = t + c" by simp
  then show ?thesis
    by (simp add: setDate_getDate_plus_def LocalTime_def UTC_def MakeDate_def Day_def
        TimeWithinDay_def Let_def algebra_simps)
qed

lemma newBorrow_dueDate_fixed_offset:
  assumes "localTZA e = (\<lambda>t u. c)"
    and "newBorrow e su sb (Some k) us = Inr nb"
  shows "dueDate nb = borrowDate nb + k \<and> status nb = ''active'' \<and> returnDate nb = None"
  using assms
  by (auto simp: newBorrow_def setDate_fixed_offset toISOString_date_def TimeClip_def Let_def
      Day_add_days split: sum.splits option.splits if_splits)

section \<open>The ledger invariant\<close>

text \<open>
  Claim C2, as the code has it. Starting from a state in which, for every book, the
  number of \<open>active\<close> borrow records that reference it equals \<open>totalCopies - count\<close>,
  and in which borrow identifiers are unique, every sequence of \<open>handleBorrow\<close>,
  \<open>handleReturn\<close> and \<open>handleDeleteBook\<close> calls in which each return is on the
  identifier of a record whose status is \<open>active\<close> and each borrow's \<open>Date.now()\<close> is
  not yet a borrow identifier ends in a state where the equation holds again for every
  book of the collection and borrow identifiers are still unique.
\<close>

theorem ledgerConsistent_preserved:
  assumes "ledgerConsistent s"
    and "distinct (map borrow_id (borrows s))"
    and "run s evs = Some s'"
  shows "(\<forall>b\<in>set (books s'). int (activeBorrows (book_id b) (borrows s')) = totalCopies b - count b) \<and>
         distinct (map borrow_id (borrows s'))"
  using run_ledger[OF assms] by (simp add: ledgerConsistent_def list_all_iff)

text \<open>
  The run \<open>ledger_trace\<close> from \<open>two_books\<close>: a borrow of book 1, the return of the
  stored loan of book 2, a borrow of book 2, the deletion of book 1 while its copy is
  lent, and the return of that copy.
\<close>

theorem ledgerConsistent_preserved_witness:
  "ledgerConsistent two_books \<and> distinct (map borrow_id (borrows two_books)) \<and>
   run two_books ledger_trace = Some after_ledger_trace \<and>
   map book_id (books after_ledger_trace) = [2] \<and>
   ledgerConsistent after_ledger_trace \<and>
   distinct (map borrow_id (borrows after_ledger_trace))"
proof -
  have h1: "ledgerConsistent two_books" by code_simp
  have h2: "distinct (map borrow_id (borrows two_books))" by code_simp
  have h3: "run two_books ledger_trace = Some after_ledger_trace" by code_simp
  have h4: "map book_id (books after_ledger_trace) = [2]" by code_simp
  from ledgerConsistent_preserved[OF h1 h2 h3]
  have "ledgerConsistent after_ledger_trace \<and>
        distinct (map borrow_id (borrows after_ledger_trace))"
    by (simp add: ledgerConsistent_def list_all_iff)
  with h1 h2 h3 h4 show ?thesis by simp
qed

text \<open>
  Claim C2 as stated fails: the equation holds in \<open>lent\<close>, and after two calls of
  \<open>handleReturn\<close> on the loan's identifier book 1 has no active record left while
  \<open>totalCopies - count\<close> is 1 - 2.
\<close>

theorem ledger_double_return_counterexample:
  "ledgerConsistent lent \<and> distinct (map borrow_id (borrows lent)) \<and>
   map status (borrows (handleReturn 1710900000000 100 (handleReturn 1710900000000 100 lent))) =
     [''returned''] \<and>
   activeBorrows 1 (borrows (handleReturn 1710900000000 100 (handleReturn 1710900000000 100 lent))) = 0 \<and>
   map book_id (books (handleReturn 1710900000000 100 (handleReturn 1710900000000 100 lent))) = [1] \<and>
   map totalCopies (books (handleReturn 1710900000000 100 (handleReturn 1710900000000 100 lent))) = [1] \<and>
   map count (books (handleReturn 1710900000000 100 (handleReturn 1710900000000 100 lent))) = [2] \<and>
   \<not> ledgerConsistent (handleReturn 1710900000000 100 (handleReturn 1710900000000 100 lent))"
  by code_simp

section \<open>Borrowing and returning\<close>

text \<open>
  Claim C8. When \<open>handleBorrow\<close> creates a record \<open>nb\<close>, that record is prepended to
  the borrows, and \<open>handleReturn\<close> on its identifier gives back the list of books as it
  was before the borrow: the borrowed book has its former \<open>count\<close> and every other book
  is unchanged.
\<close>

theorem borrow_then_return_restores_books:
  assumes "newBorrow e selectedUser selectedBook borrowDuration (users s) = Inr nb"
  shows "borrows (handleBorrow e selectedUser selectedBook borrowDuration s) = nb # borrows s \<and>
         books (handleReturn today (borrow_id nb)
                  (handleBorrow e selectedUser selectedBook borrowDuration s)) = books s"
proof -
  have nb: "bookId nb = selectedBook"
    using assms by (auto simp: newBorrow_def Let_def split: sum.splits)
  have bs: "borrows (handleBorrow e selectedUser selectedBook borrowDuration s) = nb # borrows s"
    and bk: "books (handleBorrow e selectedUser selectedBook borrowDuration s) =
      map (\<lambda>b. if Some (book_id b) = selectedBook then b\<lparr> count := count b - 1 \<rparr> else b) (books s)"
    using assms by (simp_all add: handleBorrow_def)
  have "books (handleReturn today (borrow_id nb)
                 (handleBorrow e selectedUser selectedBook borrowDuration s)) =
        map (\<lambda>b. if Some (book_id b) = selectedBook then b\<lparr> count := count b + 1 \<rparr> else b)
          (map (\<lambda>b. if Some (book_id b) = selectedBook then b\<lparr> count := count b - 1 \<rparr> else b)
             (books s))"
    by (simp add: handleReturn_def bs bk nb)
  also have "\<dots> = books s"
    by (induction "books s") (simp_all add: map_idI)
  finally show ?thesis using bs by simp
qed

text \<open>
  The first borrow from \<open>shelf\<close> creates \<open>first_loan\<close> and leaves no copy; returning
  it gives the books of \<open>shelf\<close> back.
\<close>

theorem borrow_then_return_restores_books_witness:
  "newBorrow env_berlin ''u1'' (Some 1) (Some 14) (users shelf) = Inr first_loan \<and>
   borrows (handleBorrow env_berlin ''u1'' (Some 1) (Some 14) shelf) = first_loan # borrows shelf \<and>
   map count (books (handleBorrow env_berlin ''u1'' (Some 1) (Some 14) shelf)) = [0] \<and>
   books (handleReturn 1710900000000 (borrow_id first_loan)
            (handleBorrow env_berlin ''u1'' (Some 1) (Some 14) shelf)) = books shelf"
proof -
  have h: "newBorrow env_berlin ''u1'' (Some 1) (Some 14) (users shelf) = Inr first_loan"
    by code_simp
  have c: "map count (books (handleBorrow env_berlin ''u1'' (Some 1) (Some 14) shelf)) = [0]"
    by code_simp
  from borrow_then_return_restores_books[OF h, of 1710900000000] h c show ?thesis by simp
qed

text \<open>
  Claim C7. In a browser whose zone changes its offset between the borrow and the due
  day, the stored due date is not the stored borrow date plus the duration: \<open>setDate\<close>
  adds the days to the local date, and both stored dates are cut from the UTC form. For
  a borrow of 14 days at 01:30 local time on 2024-03-20 in Europe/Berlin the record has
  borrow date 19802 (2024-03-20) and due date 19815 (2024-04-02), 13 days later; its
  status is \<open>active\<close> and its return date is absent. (In a zone of fixed offset the due
  date is the borrow date plus the duration: \<open>newBorrow_dueDate_fixed_offset\<close>.)
\<close>

theorem handleBorrow_dueDate_dst:
  "error (handleBorrow env_berlin ''u1'' (Some 1) (Some 14) shelf) = None \<and>
   map borrowDate (borrows (handleBorrow env_berlin ''u1'' (Some 1) (Some 14) shelf)) = [19802] \<and>
   map dueDate (borrows (handleBorrow env_berlin ''u1'' (Some 1) (Some 14) shelf)) = [19802 + 13] \<and>
   map status (borrows (handleBorrow env_berlin ''u1'' (Some 1) (Some 14) shelf)) = [''active''] \<and>
   map returnDate (borrows (handleBorrow env_berlin ''u1'' (Some 1) (Some 14) shelf)) = [None]"
  by code_simp

text \<open>
  Claim C3, as the code has it. A book is offered by the borrow form only when it is in
  the collection with \<open>count > 0\<close>, and the "New Borrow" button is disabled exactly when
  no book has \<open>count > 0\<close>. \<open>handleBorrow\<close> itself has no availability check: it either
  fails on an invalid due date, setting \<open>error\<close> and leaving books, users and borrows as
  they were, or prepends the new record and leaves \<open>error\<close> and the users as they were.
\<close>

theorem handleBorrow_gate_and_atomicity:
  "(b \<in> set (bookOptions bs) \<longrightarrow> b \<in> set bs \<and> 0 < count b) \<and>
   (newBorrowDisabled bs \<longleftrightarrow> (\<forall>b\<in>set bs. count b \<le> 0)) \<and>
   (newBorrow e selectedUser selectedBook borrowDuration (users s) = Inl x \<longrightarrow>
      error (handleBorrow e selectedUser selectedBook borrowDuration s) = Some borrowFailed \<and>
      books (handleBorrow e selectedUser selectedBook borrowDuration s) = books s \<and>
      users (handleBorrow e selectedUser selectedBook borrowDuration s) = users s \<and>
      borrows (handleBorrow e selectedUser selectedBook borrowDuration s) = borrows s) \<and>
   (newBorrow e selectedUser selectedBook borrowDuration (users s) = Inr nb \<longrightarrow>
      error (handleBorrow e selectedUser selectedBook borrowDuration s) = error s \<and>
      users (handleBorrow e selectedUser selectedBook borrowDuration s) = users s \<and>
      borrows (handleBorrow e selectedUser selectedBook borrowDuration s) = nb # borrows s)"
  by (auto simp: bookOptions_def newBorrowDisabled_def list_ex_iff handleBorrow_def not_less)

text \<open>
  With the only copy lent the form offers no book and the button is disabled; on the
  shelf the book is offered. A borrow whose duration is \<open>NaN\<close> fails and changes
  nothing but \<open>error\<close>.
\<close>

theorem handleBorrow_gate_and_atomicity_witness:
  "bookOptions (books lent) = [] \<and> newBorrowDisabled (books lent) \<and>
   dune \<in> set (bookOptions (books shelf)) \<and>
   newBorrow env_berlin ''u1'' (Some 1) None (users shelf) = Inl RangeError \<and>
   error (handleBorrow env_berlin ''u1'' (Some 1) None shelf) = Some borrowFailed \<and>
   books (handleBorrow env_berlin ''u1'' (Some 1) None shelf) = books shelf \<and>
   borrows (handleBorrow env_berlin ''u1'' (Some 1) None shelf) = borrows shelf"
proof -
  have h1: "bookOptions (books lent) = []" by code_simp
  have h2: "newBorrowDisabled (books lent)" by code_simp
  have h3: "dune \<in> set (bookOptions (books shelf))" by code_simp
  have h4: "newBorrow env_berlin ''u1'' (Some 1) None (users shelf) = Inl RangeError"
    by code_simp
  from handleBorrow_gate_and_atomicity
         [of dune "books shelf" env_berlin "''u1''" "Some 1" None shelf RangeError]
    h1 h2 h3 h4
  show ?thesis by simp
qed

text \<open>
  Claim C3 as stated fails: with the book's \<open>count\<close> at 0, \<open>handleBorrow\<close> reports no
  error, prepends a second record and sets \<open>count\<close> to -1.
\<close>

theorem handleBorrow_unavailable_counterexample:
  "map count (books lent) = [0] \<and>
   error (handleBorrow env_berlin ''u1'' (Some 1) (Some 14) lent) = None \<and>
   map count (books (handleBorrow env_berlin ''u1'' (Some 1) (Some 14) lent)) = [-1] \<and>
   length (borrows (handleBorrow env_berlin ''u1'' (Some 1) (Some 14) lent)) = 2"
  by code_simp

text \<open>
  Claim C4, as the code has it. A "Return Book" button exists for an identifier only
  when a stored record with that identifier has status \<open>active\<close>. \<open>handleReturn\<close> fails
  only when no record has the identifier: it then sets \<open>error\<close> and leaves books, users
  and borrows as they were. When a record has the identifier, whatever its status,
  \<open>error\<close> is left as it was.
\<close>

theorem handleReturn_gate_and_atomicity:
  "(i \<in> set (returnButtons s searchQuery fltr currentPage asOf) \<longrightarrow>
      (\<exists>r\<in>set (borrows s). borrow_id r = i \<and> status r = ''active'')) \<and>
   (find (\<lambda>b. borrow_id b = i) (borrows s) = None \<longrightarrow>
      error (handleReturn today i s) = Some returnFailed \<and>
      books (handleReturn today i s) = books s \<and>
      users (handleReturn today i s) = users s \<and>
      borrows (handleReturn today i s) = borrows s) \<and>
   (find (\<lambda>b. borrow_id b = i) (borrows s) \<noteq> None \<longrightarrow>
      error (handleReturn today i s) = error s)"
  using returnButtons_active[of i s searchQuery fltr currentPage asOf]
  by (auto simp: handleReturn_def)

text \<open>
  The lent copy has a button, the returned one has none; a return of the unknown
  identifier 7 fails and changes nothing but \<open>error\<close>.
\<close>

theorem handleReturn_gate_and_atomicity_witness:
  "returnButtons lent '''' ''all'' 1 1710900000000 = [100] \<and>
   returnButtons returned_once '''' ''all'' 1 1710900000000 = [] \<and>
   find (\<lambda>b. borrow_id b = 7) (borrows lent) = None \<and>
   error (handleReturn 1710900000000 7 lent) = Some returnFailed \<and>
   books (handleReturn 1710900000000 7 lent) = books lent \<and>
   borrows (handleReturn 1710900000000 7 lent) = borrows lent \<and>
   error (handleReturn 1710900000000 100 lent) = None"
proof -
  have h1: "returnButtons lent '''' ''all'' 1 1710900000000 = [100]" by code_simp
  have h2: "returnButtons returned_once '''' ''all'' 1 1710900000000 = []" by code_simp
  have h3: "find (\<lambda>b. borrow_id b = 7) (borrows lent) = None" by code_simp
  have h4: "find (\<lambda>b. borrow_id b = 100) (borrows lent) \<noteq> None" by code_simp
  have h5: "error lent = None" by code_simp
  from handleReturn_gate_and_atomicity[of 7 lent "''''" "''all''" 1 1710900000000 1710900000000]
    handleReturn_gate_and_atomicity[of 100 lent "''''" "''all''" 1 1710900000000 1710900000000]
    h1 h2 h3 h4 h5
  show ?thesis by simp
qed

text \<open>
  Claim C4 as stated fails: a second \<open>handleReturn\<close> on the identifier of a record that
  is already \<open>returned\<close> reports no error and increments the book's \<open>count\<close> again, from
  1 to 2 with \<open>totalCopies\<close> 1.
\<close>

theorem handleReturn_twice_counterexample:
  "map status (borrows returned_once) = [''returned''] \<and>
   map count (books returned_once) = [1] \<and>
   error returned_twice = None \<and>
   map count (books returned_twice) = [2] \<and>
   map totalCopies (books returned_twice) = [1]"
  by code_simp

section \<open>Deleting a book\<close>

text \<open>
  Claim C9. \<open>handleDeleteBook\<close> leaves the borrows, the users and \<open>error\<close> unchanged.
  When the record \<open>r\<close> that \<open>handleReturn\<close> finds for the identifier \<open>i\<close> references the
  deleted book \<open>k\<close>, the return after the deletion changes no book, reports no error,
  keeps the records' identifiers, and stores \<open>r\<close> with status \<open>returned\<close> and the
  return date.
\<close>

theorem delete_then_return_dangling:
  assumes "find (\<lambda>b. borrow_id b = i) (borrows s) = Some r" and "bookId r = Some k"
  shows "borrows (handleDeleteBook confirmed k s) = borrows s \<and>
         users (handleDeleteBook confirmed k s) = users s \<and>
         error (handleDeleteBook confirmed k s) = error s \<and>
         books (handleReturn today i (handleDeleteBook True k s)) =
           books (handleDeleteBook True k s) \<and>
         error (handleReturn today i (handleDeleteBook True k s)) = error s \<and>
         map borrow_id (borrows (handleReturn today i (handleDeleteBook True k s))) =
           map borrow_id (borrows s) \<and>
         r\<lparr> returnDate := Some (Day today), status := ''returned'' \<rparr>
           \<in> set (borrows (handleReturn today i (handleDeleteBook True k s)))"
proof -
  let ?s1 = "handleDeleteBook True k s"
  have b1: "borrows ?s1 = borrows s" "error ?s1 = error s"
    and bk1: "books ?s1 = filter (\<lambda>b. book_id b \<noteq> k) (books s)"
    by (simp_all add: handleDeleteBook_def)
  have f: "find (\<lambda>b. borrow_id b = i) (borrows ?s1) = Some r" using assms(1) b1 by simp
  have bk2: "books (handleReturn today i ?s1) =
      map (\<lambda>b. if Some (book_id b) = bookId r then b\<lparr> count := count b + 1 \<rparr> else b) (books ?s1)"
    and b2: "borrows (handleReturn today i ?s1) =
      map (\<lambda>b. if borrow_id b = i
                then b\<lparr> returnDate := Some (Day today), status := ''returned'' \<rparr> else b) (borrows s)"
    and e2: "error (handleReturn today i ?s1) = error s"
    using f b1 by (simp_all add: handleReturn_def)
  have same: "books (handleReturn today i ?s1) = books ?s1"
    unfolding bk2 bk1 assms(2) by (rule map_idI) simp
  from assms(1) have rin: "r \<in> set (borrows s)" and rid: "borrow_id r = i"
    by (auto simp: find_Some_iff)
  then have mem: "r\<lparr> returnDate := Some (Day today), status := ''returned'' \<rparr>
      \<in> set (borrows (handleReturn today i ?s1))"
    unfolding b2 by force
  have ids: "map borrow_id (borrows (handleReturn today i ?s1)) = map borrow_id (borrows s)"
    unfolding b2 by (rule map_borrow_id_return)
  have del: "borrows (handleDeleteBook confirmed k s) = borrows s"
    "users (handleDeleteBook confirmed k s) = users s"
    "error (handleDeleteBook confirmed k s) = error s"
    by (simp_all add: handleDeleteBook_def)
  from del same e2 ids mem show ?thesis by blast
qed

text \<open>
  Deleting the lent book leaves its loan stored and active; returning the loan then
  marks it \<open>returned\<close> with no book left to change.
\<close>

theorem delete_then_return_dangling_witness:
  "find (\<lambda>b. borrow_id b = 100) (borrows lent) = Some loan \<and> bookId loan = Some 1 \<and>
   books (handleDeleteBook True 1 lent) = [] \<and>
   borrows (handleDeleteBook True 1 lent) = [loan] \<and>
   books (handleReturn 1710900000000 100 (handleDeleteBook True 1 lent)) = [] \<and>
   map status (borrows (handleReturn 1710900000000 100 (handleDeleteBook True 1 lent))) =
     [''returned'']"
proof -
  have h1: "find (\<lambda>b. borrow_id b = 100) (borrows lent) = Some loan" by code_simp
  have h2: "bookId loan = Some 1" by code_simp
  have h3: "books (handleDeleteBook True 1 lent) = []" by code_simp
  have h4: "borrows lent = [loan]" by code_simp
  have h5: "map status (borrows (handleReturn 1710900000000 100 (handleDeleteBook True 1 lent))) =
            [''returned'']"
    by code_simp
  from delete_then_return_dangling[OF h1 h2, of True 1710900000000] h1 h2 h3 h4 h5
  show ?thesis by simp
qed

section \<open>Editing a book\<close>

text \<open>
  Claim C5, as the code has it. \<open>handleUpdateBook\<close> never rejects an edit: \<open>error\<close>,
  the users and the borrows are unchanged and every book stays in its place. A book
  with the identifier of the edited book keeps its identifier and its \<open>totalCopies\<close>
  becomes the maximum of the form's count and its former \<open>totalCopies\<close>, so it never
  decreases; every other book is unchanged. For an edited book none of whose copies is
  out (\<open>count = totalCopies\<close>), an edit that raises \<open>totalCopies\<close> raises \<open>count\<close> by
  the same amount.
\<close>

theorem handleUpdateBook_totalCopies:
  "length (books (handleUpdateBook editingBook formData s)) = length (books s) \<and>
   error (handleUpdateBook editingBook formData s) = error s \<and>
   users (handleUpdateBook editingBook formData s) = users s \<and>
   borrows (handleUpdateBook editingBook formData s) = borrows s \<and>
   (\<forall>n<length (books s).
      (book_id (books s ! n) = book_id editingBook \<longrightarrow>
         book_id (books (handleUpdateBook editingBook formData s) ! n) = book_id (books s ! n) \<and>
         totalCopies (books (handleUpdateBook editingBook formData s) ! n) =
           max (count formData) (totalCopies (books s ! n)) \<and>
         totalCopies (books s ! n) \<le> totalCopies (books (handleUpdateBook editingBook formData s) ! n) \<and>
         (count (books s ! n) = totalCopies (books s ! n) \<and>
          totalCopies (books s ! n) < totalCopies (books (handleUpdateBook editingBook formData s) ! n)
          \<longrightarrow> count (books (handleUpdateBook editingBook formData s) ! n) - count (books s ! n) =
               totalCopies (books (handleUpdateBook editingBook formData s) ! n) -
               totalCopies (books s ! n))) \<and>
      (book_id (books s ! n) \<noteq> book_id editingBook \<longrightarrow>
         books (handleUpdateBook editingBook formData s) ! n = books s ! n))"
  by (auto simp: handleUpdateBook_def)

text \<open>
  On the shelf (count 1 of 1) an edit to 3 copies gives \<open>totalCopies\<close> the maximum of 3
  and 1 and raises both \<open>count\<close> and \<open>totalCopies\<close> by 2.
\<close>

theorem handleUpdateBook_totalCopies_witness:
  "map book_id (books shelf) = [book_id dune] \<and>
   map count (books shelf) = [1] \<and> map totalCopies (books shelf) = [1] \<and>
   count three_form = 3 \<and>
   map count (books (handleUpdateBook dune three_form shelf)) = [3] \<and>
   map totalCopies (books (handleUpdateBook dune three_form shelf)) = [3] \<and>
   error (handleUpdateBook dune three_form shelf) = error shelf"
proof -
  have h0: "map book_id (books shelf) = [book_id dune]" "count three_form = 3" by code_simp+
  have h1: "map count (books shelf) = [1]" "map totalCopies (books shelf) = [1]" by code_simp+
  have h2: "map count (books (handleUpdateBook dune three_form shelf)) = [3]" by code_simp
  have h3: "map totalCopies (books (handleUpdateBook dune three_form shelf)) = [3]" by code_simp
  from handleUpdateBook_totalCopies[of dune three_form shelf] h0 h1 h2 h3 show ?thesis by simp
qed

text \<open>
  Claim C5 as stated fails: with both copies of a book lent (count 0 of 2, two active
  records), an edit submitted with a count of 1, below the two copies that are out, is
  not rejected: no error is reported, the form's count is stored and \<open>totalCopies\<close>
  stays 2.
\<close>

theorem handleUpdateBook_below_borrowed_counterexample:
  "map count (books both_lent) = [0] \<and> map totalCopies (books both_lent) = [2] \<and>
   activeBorrows 1 (borrows both_lent) = 2 \<and> count fewer_form = 1 \<and>
   error (handleUpdateBook (dune\<lparr> count := 0, totalCopies := 2 \<rparr>) fewer_form both_lent) = None \<and>
   map count (books (handleUpdateBook (dune\<lparr> count := 0, totalCopies := 2 \<rparr>) fewer_form both_lent)) = [1] \<and>
   map totalCopies (books (handleUpdateBook (dune\<lparr> count := 0, totalCopies := 2 \<rparr>) fewer_form both_lent)) = [2]"
  by code_simp

text \<open>
  Claim C1. The bound \<open>count \<le> totalCopies\<close> does not survive an edit followed by a
  return. In \<open>lent\<close> the bound and the ledger equation hold. Editing the lent book
  submits a count of 1 (the form's minimum) and leaves \<open>totalCopies\<close> at 1; the loan
  still has its "Return Book" button, and the return raises \<open>count\<close> to 2.
\<close>

theorem edit_then_return_exceeds_totalCopies:
  "countInRange lent \<and> ledgerConsistent lent \<and> count edit_form = 1 \<and>
   returnButtons edited '''' ''all'' 1 1710900000000 = [100] \<and>
   map count (books over_capacity) = [2] \<and> map totalCopies (books over_capacity) = [1] \<and>
   \<not> countInRange over_capacity"
  by code_simp

section \<open>Adding a book\<close>

text \<open>
  Claim C10. \<open>handleAddBook\<close> appends one book whose \<open>count\<close> is the form's count and
  whose \<open>totalCopies\<close> equals its \<open>count\<close>.
\<close>

theorem handleAddBook_totalCopies_eq_count:
  "\<exists>b. books (handleAddBook dnow formData s) = books s @ [b] \<and> book_id b = dnow \<and>
       count b = count formData \<and> totalCopies b = count b"
  by (simp add: handleAddBook_def)

section \<open>Filtering the borrows\<close>

text \<open>
  Claim C6. For a user added by \<open>handleAddUser\<close> the record that \<open>handleBorrow\<close> stores
  has no \<open>userName\<close>, and on a list that holds such a record the \<open>overdue\<close> filter
  throws a TypeError instead of selecting records. (On lists whose records all carry a
  user name the filter selects the records the claim describes, in the order of the
  input: \<open>filteredBorrows_overdue_named\<close>.)
\<close>

theorem filteredBorrows_undefined_userName:
  "map userName (borrows nameless) = [None] \<and>
   filteredBorrows (books nameless) (borrows nameless) '''' ''overdue'' 1810894600000 =
     Inl TypeError"
  by code_simp

end
